theory Spec2Isabelle
  imports Main
begin

section \<open>JavaScript values used by the action\<close>

text \<open>
  Strings are \<^typ>\<open>string\<close>; the alphabet of the model is ASCII. A value of type
  \<open>string | undefined\<close> is a \<^typ>\<open>string option\<close>. In a condition JavaScript takes
  \<open>undefined\<close> and the empty string for false and every other string for true.
\<close>

fun truthy :: "string option \<Rightarrow> bool" where
  "truthy None = False"
| "truthy (Some s) = (s \<noteq> [])"

text \<open>\<open>Array.prototype.join(",")\<close>.\<close>

fun join_comma :: "string list \<Rightarrow> string" where
  "join_comma [] = []"
| "join_comma [x] = x"
| "join_comma (x # y # ys) = x @ '','' @ join_comma (y # ys)"

text \<open>
  \<open>String.prototype.split(",")\<close>: the comma-separated entries of a tool string. It
  is used to say which tools a result of \<open>buildDisallowedToolsString\<close> names.
\<close>

fun split_comma :: "string \<Rightarrow> string list" where
  "split_comma [] = [[]]"
| "split_comma (c # cs) =
     (if c = CHR '','' then [] # split_comma cs
      else (case split_comma cs of
              [] \<Rightarrow> [[c]]
            | e # es \<Rightarrow> (c # e) # es))"

section \<open>Tool lists (create-prompt/index.ts)\<close>

definition DISALLOWED_TOOLS :: "string list" where
  "DISALLOWED_TOOLS = [''WebSearch'', ''WebFetch'']"

text \<open>
  \<open>buildDisallowedToolsString(customDisallowedTools?, allowedTools?)\<close>. Both arguments
  are optional arrays. A built-in entry is dropped when the caller allowed it; the
  caller's own entries are appended as they are.
\<close>

definition buildDisallowedToolsString :: "string list option \<Rightarrow> string list option \<Rightarrow> string" where
  "buildDisallowedToolsString customDisallowedTools allowedTools =
     (let disallowedTools =
            (case allowedTools of
               None \<Rightarrow> DISALLOWED_TOOLS
             | Some al \<Rightarrow>
                 if length al > 0 then filter (\<lambda>tool. tool \<notin> set al) DISALLOWED_TOOLS
                 else DISALLOWED_TOOLS);
          allDisallowedTools = join_comma disallowedTools
      in (case customDisallowedTools of
            None \<Rightarrow> allDisallowedTools
          | Some cs \<Rightarrow>
              if length cs > 0 then
                (if allDisallowedTools \<noteq> [] then allDisallowedTools @ '','' @ join_comma cs
                 else join_comma cs)
              else allDisallowedTools))"

section \<open>Strings, numbers and dates\<close>

text \<open>
  \<open>Number.prototype.toString()\<close> on a non-negative integer, which is what an issue or
  pull request number is.
\<close>

definition digit :: "nat \<Rightarrow> char" where
  "digit d = ''0123456789'' ! d"

fun decimal :: "nat \<Rightarrow> string" where
  "decimal n = (if n < 10 then [digit n] else decimal (n div 10) @ [digit (n mod 10)])"

declare decimal.simps [simp del]

text \<open>\<open>String.prototype.padStart(n, c)\<close> for a pad string of one character.\<close>

definition padStart :: "nat \<Rightarrow> char \<Rightarrow> string \<Rightarrow> string" where
  "padStart n c s = replicate (n - length s) c @ s"

text \<open>\<open>String.prototype.toLowerCase()\<close> on the ASCII alphabet.\<close>

definition upper_chars :: string where
  "upper_chars = ''ABCDEFGHIJKLMNOPQRSTUVWXYZ''"

definition lower_chars :: string where
  "lower_chars = ''abcdefghijklmnopqrstuvwxyz''"

definition toLowerCase_char :: "char \<Rightarrow> char" where
  "toLowerCase_char c = (case map_of (zip upper_chars lower_chars) c of Some l \<Rightarrow> l | None \<Rightarrow> c)"

definition toLowerCase :: "string \<Rightarrow> string" where
  "toLowerCase s = map toLowerCase_char s"

text \<open>\<open>String.prototype.substring(0, n)\<close>.\<close>

definition substring0 :: "nat \<Rightarrow> string \<Rightarrow> string" where
  "substring0 n s = take n s"

text \<open>\<open>String.prototype.trim()\<close>: blank, tab, line feed, vertical tab, form feed, carriage return.\<close>

definition isSpace :: "char \<Rightarrow> bool" where
  "isSpace c = (c \<in> set [CHR '' '', CHR 0x09, CHR 0x0A, CHR 0x0B, CHR 0x0C, CHR 0x0D])"

definition trim :: "string \<Rightarrow> string" where
  "trim s = rev (dropWhile isSpace (rev (dropWhile isSpace s)))"

text \<open>The fields of \<open>new Date()\<close> that the branch name reads; \<open>getMonth\<close> counts from 0.\<close>

record Date =
  getFullYear :: nat
  getMonth :: nat
  getDate :: nat
  getHours :: nat
  getMinutes :: nat

section \<open>The run's inputs and surroundings\<close>

record Repository =
  owner :: string
  repo :: string
  full_name :: string

record Inputs =
  triggerPhrase :: "string option"
  assigneeTrigger :: "string option"
  labelTrigger :: "string option"
  customInstructions :: "string option"
  allowedTools :: "string list"
  disallowedTools :: "string list"
  directPrompt :: "string option"
  baseBranch :: "string option"
  baseBranchPrompt :: "string option"
  branchPrefix :: string
  useTimestampSuffix :: bool
  useCommitSigning :: bool

text \<open>
  The event payload. The guards \<open>isIssueCommentEvent\<close>, \<open>isPullRequestReviewEvent\<close>,
  \<open>isPullRequestReviewCommentEvent\<close> and \<open>isIssuesEvent\<close> each narrow the payload to one
  variant; the constructors stand for the variants and carry the fields that are read:
  comment id, comment body and author login; review body (which may be null) and
  author login; the login of the issue's author.
\<close>

datatype Payload =
    IssueCommentPayload nat string string
  | PullRequestReviewPayload "string option" string
  | PullRequestReviewCommentPayload nat string string
  | IssuesPayload string
  | OtherPayload

record ParsedGitHubContext =
  repository :: Repository
  eventName :: string
  eventAction :: "string option"
  inputs :: Inputs
  isPR :: bool
  entityNumber :: nat
  payload :: Payload

datatype PullRequestState = OPEN | CLOSED | MERGED

record GitHubPullRequest =
  title :: string
  body :: "string option"
  state :: PullRequestState
  headRefName :: string
  baseRefName :: string
  commits_totalCount :: int

record GitHubIssue =
  title :: string
  body :: "string option"

datatype ContextData = PullRequestData GitHubPullRequest | IssueData GitHubIssue

record FetchDataResult =
  contextData :: ContextData

text \<open>
  The shell commands of the branch setup: \<open>git fetch origin --depth=d ref\<close>,
  \<open>git checkout ref\<close> and \<open>git checkout -b ref\<close>.
\<close>

datatype git_cmd = GitFetch int string | GitCheckout string | GitCheckoutB string

text \<open>
  What can be thrown: \<open>new Error(message)\<close>, a \<open>TypeError\<close> of the runtime, the error of
  a shell command that exits with a code other than 0, and the error of a rejected
  request to a remote API.
\<close>

datatype error = Error string | TypeError | ShellError git_cmd | RequestError string

text \<open>A run that gives no value either throws or ends the process with an exit code.\<close>

datatype failure = Thrown error | Exit nat

text \<open>
  The hosting API as the run sees it. \<open>repos_get k\<close> is the \<open>default_branch\<close> of the
  answer to the \<open>k\<close>-th call of \<open>repos.get\<close> in the run, counted from 0;
  \<open>git_getRef ref\<close> is the \<open>sha\<close> of the answer to \<open>git.getRef\<close>;
  \<open>repos_listBranches\<close> is the list of the names in the answer to \<open>repos.listBranches\<close>
  (one page of at most 100 branches).
\<close>

record Octokits =
  repos_get :: "nat \<Rightarrow> error + string"
  git_getRef :: "string \<Rightarrow> error + string"
  repos_listBranches :: "error + string list"

text \<open>
  The request to the completion API, by the values that go into its two prompts: the
  guidance prompt, \<open>owner/repo\<close>, the default branch, the available branches, the entity
  type, the entity number, the entity's title and its body.
\<close>

datatype MessagesRequest =
  MessagesRequest string string string "string list" string nat string string

datatype ContentBlock = TextBlock string | OtherBlock

text \<open>
  The rest of the surroundings of a run: \<open>shell cmd\<close> tells whether the command exits
  with code 0, \<open>now\<close> is the clock, the two environment variables hold the credentials,
  and \<open>messages_create\<close> is the answer of the completion API (its \<open>content\<close> array).
\<close>

record World =
  shell :: "git_cmd \<Rightarrow> bool"
  now :: Date
  ANTHROPIC_API_KEY :: "string option"
  CLAUDE_CODE_OAUTH_TOKEN :: "string option"
  messages_create :: "MessagesRequest \<Rightarrow> error + ContentBlock list"

text \<open>What a run does that is seen from outside: shell commands and \<open>core.setOutput\<close>.\<close>

datatype effect = Shell git_cmd | SetOutput string string

section \<open>The event descriptor (prepareContext)\<close>

text \<open>
  The variants of \<open>EventData\<close>. Every field is passed on as the value the function
  holds for it; a field that the function requires is a non-empty string there. The
  fields, in order:
  \<^item> review comment: prNumber, commentId, commentBody, claudeBranch, baseBranch;
  \<^item> review: prNumber, commentBody, claudeBranch, baseBranch;
  \<^item> comment on a pull request: commentId, prNumber, commentBody, claudeBranch, baseBranch;
  \<^item> comment on an issue: commentId, claudeBranch, baseBranch, issueNumber, commentBody;
  \<^item> issue assigned: issueNumber, baseBranch, claudeBranch, assigneeTrigger;
  \<^item> issue labeled: issueNumber, baseBranch, claudeBranch, labelTrigger;
  \<^item> issue opened: issueNumber, baseBranch, claudeBranch;
  \<^item> pull request: eventAction, prNumber, claudeBranch, baseBranch.
\<close>

datatype EventData =
    PullRequestReviewCommentEvent "string option" "string option" "string option" "string option" "string option"
  | PullRequestReviewEvent "string option" "string option" "string option" "string option"
  | IssueCommentEventPR "string option" "string option" "string option" "string option" "string option"
  | IssueCommentEventIssue "string option" "string option" "string option" "string option" "string option"
  | IssuesAssignedEvent "string option" "string option" "string option" "string option"
  | IssuesLabeledEvent "string option" "string option" "string option" "string option"
  | IssuesOpenedEvent "string option" "string option" "string option"
  | PullRequestEvent "string option" "string option" "string option" "string option"

record PreparedContext =
  repository :: string
  claudeCommentId :: string
  triggerPhrase :: string
  triggerUsername :: "string option"
  customInstructions :: "string option"
  allowedTools :: "string option"
  disallowedTools :: "string option"
  directPrompt :: "string option"
  claudeBranch :: "string option"
  eventData :: EventData







section \<open>Branch setup (github/operations/branch.ts)\<close>

record BranchInfo =
  baseBranch :: string
  claudeBranch :: "string option"
  currentBranch :: string

text \<open>
  The open pull request: fetch the head ref with a depth of the commit count, at least
  20, check it out, and report the pull request's base ref. A failing shell command
  throws, outside of any \<open>try\<close>.
\<close>

definition checkoutPR :: "World \<Rightarrow> GitHubPullRequest \<Rightarrow> effect list \<times> (failure + BranchInfo)" where
  "checkoutPR w prData =
     (let branchName = headRefName prData;
          commitCount = commits_totalCount prData;
          fetchDepth = max commitCount 20
      in if shell w (GitFetch fetchDepth branchName) then
           if shell w (GitCheckout branchName) then
             ([Shell (GitFetch fetchDepth branchName), Shell (GitCheckout branchName)],
              Inr \<lparr>baseBranch = baseRefName prData, claudeBranch = None,
                   currentBranch = branchName\<rparr>)
           else
             ([Shell (GitFetch fetchDepth branchName), Shell (GitCheckout branchName)],
              Inl (Thrown (ShellError (GitCheckout branchName))))
         else
           ([Shell (GitFetch fetchDepth branchName)],
            Inl (Thrown (ShellError (GitFetch fetchDepth branchName)))))"

text \<open>
  The source branch: the configured base branch when there is one; otherwise the
  repository's default branch, with or without a configured prompt (the branch of the
  prompt is a placeholder that logs and falls back).
\<close>

definition sourceBranch :: "Octokits \<Rightarrow> ParsedGitHubContext \<Rightarrow> error + string" where
  "sourceBranch octokits context =
     (case Inputs.baseBranch (inputs context) of
        Some (c # cs) \<Rightarrow> Inr (c # cs)
      | _ \<Rightarrow>
          if truthy (baseBranchPrompt (inputs context)) then repos_get octokits 0
          else repos_get octokits 0)"

definition timestamp :: "Date \<Rightarrow> string" where
  "timestamp d =
     decimal (getFullYear d) @ padStart 2 CHR ''0'' (decimal (getMonth d + 1))
       @ padStart 2 CHR ''0'' (decimal (getDate d)) @ ''-''
       @ padStart 2 CHR ''0'' (decimal (getHours d))
       @ padStart 2 CHR ''0'' (decimal (getMinutes d))"

definition entityType :: "ParsedGitHubContext \<Rightarrow> string" where
  "entityType context = (if isPR context then ''pr'' else ''issue'')"

definition branchName :: "World \<Rightarrow> ParsedGitHubContext \<Rightarrow> string" where
  "branchName w context =
     (if useTimestampSuffix (inputs context) then
        branchPrefix (inputs context) @ entityType context @ ''-''
          @ decimal (entityNumber context) @ ''-'' @ timestamp (now w)
      else
        branchPrefix (inputs context) @ entityType context @ ''-''
          @ decimal (entityNumber context))"

text \<open>\<open>branchName.toLowerCase().substring(0, 50)\<close>.\<close>

definition sanitize :: "string \<Rightarrow> string" where
  "sanitize name = substring0 50 (toLowerCase name)"

definition newBranch :: "World \<Rightarrow> ParsedGitHubContext \<Rightarrow> string" where
  "newBranch w context = sanitize (branchName w context)"

text \<open>
  The creation of a branch, for an issue and for a closed or merged pull request. The
  lookup of the default branch is outside the \<open>try\<close>, so its error is thrown; the
  lookup of the source ref and \<open>git checkout -b\<close> are inside, so their errors end the
  process with exit code 1.
\<close>

definition createBranch :: "World \<Rightarrow> Octokits \<Rightarrow> ParsedGitHubContext \<Rightarrow> effect list \<times> (failure + BranchInfo)" where
  "createBranch w octokits context =
     (case sourceBranch octokits context of
        Inl e \<Rightarrow> ([], Inl (Thrown e))
      | Inr src \<Rightarrow>
          (case git_getRef octokits (''heads/'' @ src) of
             Inl e \<Rightarrow> ([], Inl (Exit 1))
           | Inr currentSHA \<Rightarrow>
               if useCommitSigning (inputs context) then
                 ([SetOutput ''CLAUDE_BRANCH'' (newBranch w context),
                   SetOutput ''BASE_BRANCH'' src],
                  Inr \<lparr>baseBranch = src, claudeBranch = Some (newBranch w context),
                       currentBranch = src\<rparr>)
               else if shell w (GitCheckoutB (newBranch w context)) then
                 ([Shell (GitCheckoutB (newBranch w context)),
                   SetOutput ''CLAUDE_BRANCH'' (newBranch w context),
                   SetOutput ''BASE_BRANCH'' src],
                  Inr \<lparr>baseBranch = src, claudeBranch = Some (newBranch w context),
                       currentBranch = newBranch w context\<rparr>)
               else
                 ([Shell (GitCheckoutB (newBranch w context))], Inl (Exit 1))))"

text \<open>
  \<open>setupBranch\<close>. With \<open>isPR\<close> the context data is read as a pull request; if it is
  not one, reading \<open>commits.totalCount\<close> throws a \<open>TypeError\<close> before any command runs.
\<close>

definition setupBranch :: "World \<Rightarrow> Octokits \<Rightarrow> FetchDataResult \<Rightarrow> ParsedGitHubContext \<Rightarrow> effect list \<times> (failure + BranchInfo)" where
  "setupBranch w octokits githubData context =
     (if isPR context then
        (case contextData githubData of
           PullRequestData prData \<Rightarrow>
             if state prData = CLOSED \<or> state prData = MERGED then
               createBranch w octokits context
             else checkoutPR w prData
         | IssueData issueData \<Rightarrow> ([], Inl (Thrown TypeError)))
      else createBranch w octokits context)"

section \<open>The branch advisor (determineBranchWithAI)\<close>

definition getDefaultBranch :: "Octokits \<Rightarrow> nat \<Rightarrow> error + string" where
  "getDefaultBranch octokits k = repos_get octokits k"

definition entityTitle :: "FetchDataResult \<Rightarrow> string" where
  "entityTitle githubData =
     (case contextData githubData of
        PullRequestData prData \<Rightarrow> GitHubPullRequest.title prData
      | IssueData issueData \<Rightarrow> GitHubIssue.title issueData)"

text \<open>\<open>data.body || ""\<close>.\<close>

definition entityBody :: "FetchDataResult \<Rightarrow> string" where
  "entityBody githubData =
     (case (case contextData githubData of
              PullRequestData prData \<Rightarrow> GitHubPullRequest.body prData
            | IssueData issueData \<Rightarrow> GitHubIssue.body issueData) of
        Some b \<Rightarrow> b
      | None \<Rightarrow> [])"

text \<open>
  The request that is sent: the system prompt holds the guidance prompt, the repository,
  its default branch and its branches; the user prompt holds the entity's type, number,
  title and body.
\<close>

definition advisorRequest :: "string \<Rightarrow> ParsedGitHubContext \<Rightarrow> FetchDataResult \<Rightarrow> string \<Rightarrow> string list \<Rightarrow> MessagesRequest" where
  "advisorRequest prompt context githubData defaultBranch branches =
     MessagesRequest prompt
       (owner (ParsedGitHubContext.repository context) @ ''/''
          @ repo (ParsedGitHubContext.repository context))
       defaultBranch branches
       (if isPR context then ''pull_request'' else ''issue'')
       (entityNumber context)
       (entityTitle githubData) (entityBody githubData)"

text \<open>
  The body of the \<open>try\<close> block. Without credentials it answers with the default branch
  at once. Otherwise it looks up the repository and its branches, asks the completion
  API, takes the trimmed text of the first content block (the default branch when the
  block is missing or is not text) and keeps it only if it is one of the branches.
\<close>

definition determineBranchWithAI_try :: "World \<Rightarrow> Octokits \<Rightarrow> FetchDataResult \<Rightarrow> ParsedGitHubContext \<Rightarrow> string \<Rightarrow> error + string" where
  "determineBranchWithAI_try w octokits githubData context prompt =
     (if \<not> truthy (ANTHROPIC_API_KEY w) \<and> \<not> truthy (CLAUDE_CODE_OAUTH_TOKEN w) then
        getDefaultBranch octokits 0
      else
        (case repos_get octokits 0 of
           Inl e \<Rightarrow> Inl e
         | Inr defaultBranch \<Rightarrow>
             (case repos_listBranches octokits of
                Inl e \<Rightarrow> Inl e
              | Inr branches \<Rightarrow>
                  (case messages_create w
                          (advisorRequest prompt context githubData defaultBranch branches) of
                     Inl e \<Rightarrow> Inl e
                   | Inr content \<Rightarrow>
                       (let branchName =
                              (case content of
                                 TextBlock text # rest \<Rightarrow> trim text
                               | _ \<Rightarrow> defaultBranch)
                        in if branchName \<in> set branches then Inr branchName
                           else Inr defaultBranch)))))"

text \<open>
  \<open>determineBranchWithAI\<close>: whatever is thrown in the \<open>try\<close> block is caught, and the
  handler answers with a second lookup of the default branch, whose own error is not
  caught.
\<close>

definition determineBranchWithAI :: "World \<Rightarrow> Octokits \<Rightarrow> FetchDataResult \<Rightarrow> ParsedGitHubContext \<Rightarrow> string \<Rightarrow> error + string" where
  "determineBranchWithAI w octokits githubData context prompt =
     (case determineBranchWithAI_try w octokits githubData context prompt of
        Inr branch \<Rightarrow> Inr branch
      | Inl e \<Rightarrow> getDefaultBranch octokits 1)"

section \<open>Sample runs\<close>

text \<open>
  Concrete inputs on which the statements below are run: the repository
  \<open>acme/widgets\<close> with default branch \<open>main\<close>, every ref found, every shell command
  succeeding, no credentials for the completion API, and the inputs of a plain
  configuration with the branch prefix \<open>claude-\<close>.
\<close>

definition sample_inputs :: Inputs where
  "sample_inputs =
     \<lparr>Inputs.triggerPhrase = Some ''@claude'', assigneeTrigger = None, labelTrigger = None,
      Inputs.customInstructions = None, Inputs.allowedTools = [],
      Inputs.disallowedTools = [], Inputs.directPrompt = None, Inputs.baseBranch = None,
      baseBranchPrompt = None, branchPrefix = ''claude-'', useTimestampSuffix = False,
      useCommitSigning = False\<rparr>"

definition sample_context :: ParsedGitHubContext where
  "sample_context =
     \<lparr>ParsedGitHubContext.repository =
        \<lparr>owner = ''acme'', repo = ''widgets'', full_name = ''acme/widgets''\<rparr>,
      eventName = ''issues'', eventAction = Some ''assigned'', inputs = sample_inputs,
      isPR = False, entityNumber = 101, payload = IssuesPayload ''alice''\<rparr>"

definition sample_octokits :: Octokits where
  "sample_octokits =
     \<lparr>repos_get = (\<lambda>k. Inr ''main''),
      git_getRef = (\<lambda>ref. Inr ''0123abc''),
      repos_listBranches = Inr [''dev'']\<rparr>"

definition sample_world :: World where
  "sample_world =
     \<lparr>shell = (\<lambda>cmd. True),
      now = \<lparr>getFullYear = 2025, getMonth = 0, getDate = 5, getHours = 9, getMinutes = 3\<rparr>,
      ANTHROPIC_API_KEY = None, CLAUDE_CODE_OAUTH_TOKEN = None,
      messages_create = (\<lambda>request. Inr [TextBlock ''hotfix-9''])\<rparr>"

definition sample_pr :: "PullRequestState \<Rightarrow> FetchDataResult" where
  "sample_pr st =
     \<lparr>contextData = PullRequestData
        \<lparr>GitHubPullRequest.title = ''Add x'', GitHubPullRequest.body = None, state = st,
         headRefName = ''feature-x'', baseRefName = ''main'', commits_totalCount = 5\<rparr>\<rparr>"

definition sample_issue :: FetchDataResult where
  "sample_issue =
     \<lparr>contextData = IssueData \<lparr>GitHubIssue.title = ''Crash'', GitHubIssue.body = None\<rparr>\<rparr>"

section \<open>Facts about the string helpers\<close>

lemma split_comma_not_Nil: "split_comma s \<noteq> []"
  by (induction s) (auto split: list.splits)

lemma split_comma_append:
  "split_comma (a @ CHR '','' # b) = split_comma a @ split_comma b"
  by (induction a) (auto split: list.splits simp: split_comma_not_Nil)

lemma split_comma_join:
  "xs \<noteq> [] \<Longrightarrow> split_comma (join_comma xs) = concat (map split_comma xs)"
proof (induction xs rule: join_comma.induct)
  case (3 x y ys)
  then show ?case by (simp add: split_comma_append)
qed simp_all

lemmas sample_defs =
  sample_inputs_def sample_context_def sample_octokits_def sample_world_def
  sample_pr_def sample_issue_def

section \<open>Facts about the branch name\<close>

lemma toLowerCase_char_fixed: "c \<notin> set upper_chars \<Longrightarrow> toLowerCase_char c = c"
proof -
  assume "c \<notin> set upper_chars"
  then have "map_of (zip upper_chars lower_chars) c = None"
    by (simp add: map_of_eq_None_iff upper_chars_def lower_chars_def)
  then show ?thesis by (simp add: toLowerCase_char_def)
qed

lemma toLowerCase_char_not_upper: "toLowerCase_char c \<notin> set upper_chars"
proof (cases "c \<in> set upper_chars")
  case True
  then show ?thesis
    unfolding upper_chars_def lower_chars_def toLowerCase_char_def by auto
next
  case False
  then show ?thesis by (simp add: toLowerCase_char_fixed)
qed

lemma sanitize_idempotent: "sanitize (sanitize s) = sanitize s"
proof -
  have "toLowerCase (take 50 (toLowerCase s)) = take 50 (toLowerCase s)"
    by (simp add: toLowerCase_def take_map toLowerCase_char_fixed toLowerCase_char_not_upper)
  then show ?thesis by (simp add: sanitize_def substring0_def)
qed

lemma sanitize_lowercase: "set (sanitize s) \<inter> set upper_chars = {}"
  using toLowerCase_char_not_upper
  by (auto simp: sanitize_def substring0_def toLowerCase_def dest!: in_set_takeD)

lemma sanitize_length: "length (sanitize s) \<le> 50"
  by (simp add: sanitize_def substring0_def)

section \<open>Facts about the branch setup\<close>

lemma setupBranch_creation:
  assumes "\<not> isPR context \<or>
     (\<exists>prData. contextData githubData = PullRequestData prData \<and>
        (state prData = CLOSED \<or> state prData = MERGED))"
  shows "setupBranch w octokits githubData context = createBranch w octokits context"
  using assms by (auto simp: setupBranch_def)

lemma createBranch_found:
  assumes "sourceBranch octokits context = Inr src"
    and "git_getRef octokits (''heads/'' @ src) = Inr sha"
  shows "createBranch w octokits context =
     (if useCommitSigning (inputs context) then
        ([SetOutput ''CLAUDE_BRANCH'' (newBranch w context), SetOutput ''BASE_BRANCH'' src],
         Inr \<lparr>baseBranch = src, claudeBranch = Some (newBranch w context),
              currentBranch = src\<rparr>)
      else if shell w (GitCheckoutB (newBranch w context)) then
        ([Shell (GitCheckoutB (newBranch w context)),
          SetOutput ''CLAUDE_BRANCH'' (newBranch w context), SetOutput ''BASE_BRANCH'' src],
         Inr \<lparr>baseBranch = src, claudeBranch = Some (newBranch w context),
              currentBranch = newBranch w context\<rparr>)
      else ([Shell (GitCheckoutB (newBranch w context))], Inl (Exit 1)))"
  using assms by (simp add: createBranch_def)

lemma checkoutPR_fetch_first:
  "\<exists>rest. fst (checkoutPR w prData) =
      Shell (GitFetch (max (commits_totalCount prData) 20) (headRefName prData)) # rest"
  by (simp add: checkoutPR_def Let_def)

lemma checkoutPR_record:
  "checkoutPR w prData = (trace, Inr r) \<Longrightarrow>
     r = \<lparr>baseBranch = baseRefName prData, claudeBranch = None,
          currentBranch = headRefName prData\<rparr>"
  by (simp add: checkoutPR_def Let_def split: if_splits)

lemma checkoutPR_done:
  "shell w (GitFetch (max (commits_totalCount prData) 20) (headRefName prData)) \<Longrightarrow>
   shell w (GitCheckout (headRefName prData)) \<Longrightarrow>
   checkoutPR w prData =
     ([Shell (GitFetch (max (commits_totalCount prData) 20) (headRefName prData)),
       Shell (GitCheckout (headRefName prData))],
      Inr \<lparr>baseBranch = baseRefName prData, claudeBranch = None,
           currentBranch = headRefName prData\<rparr>)"
  by (simp add: checkoutPR_def Let_def)

text \<open>
  C1. For every open pull request \<open>setupBranch\<close> starts with
  \<open>git fetch origin --depth=d head\<close>, where \<open>d\<close> is the larger of the commit count and
  20. When this command and \<open>git checkout head\<close> succeed, these two are all it runs,
  and it returns the record with the pull request's base ref as base branch, the head
  ref as current branch and no new branch; it returns no other record. The sample run
  is the pull request 42 with head \<open>feature-x\<close>, base \<open>main\<close> and 5 commits: depth 20.
\<close>

theorem setupBranch_open_pull_request:
  assumes "isPR context"
    and "contextData githubData = PullRequestData prData"
    and "state prData = OPEN"
  shows "(\<exists>rest. fst (setupBranch w octokits githubData context) =
            Shell (GitFetch (max (commits_totalCount prData) 20) (headRefName prData)) # rest) \<and>
     (shell w (GitFetch (max (commits_totalCount prData) 20) (headRefName prData)) \<and>
      shell w (GitCheckout (headRefName prData))
        \<longrightarrow> setupBranch w octokits githubData context =
             ([Shell (GitFetch (max (commits_totalCount prData) 20) (headRefName prData)),
               Shell (GitCheckout (headRefName prData))],
              Inr \<lparr>baseBranch = baseRefName prData, claudeBranch = None,
                   currentBranch = headRefName prData\<rparr>)) \<and>
     (\<forall>trace r. setupBranch w octokits githubData context = (trace, Inr r)
        \<longrightarrow> r = \<lparr>baseBranch = baseRefName prData, claudeBranch = None,
                  currentBranch = headRefName prData\<rparr>)"
proof -
  have eq: "setupBranch w octokits githubData context = checkoutPR w prData"
    using assms by (simp add: setupBranch_def)
  show ?thesis
    unfolding eq
    using checkoutPR_fetch_first [of w prData] checkoutPR_done [of w prData]
      checkoutPR_record [of w prData]
    by blast
qed

theorem setupBranch_open_pull_request_witness:
  "isPR (sample_context\<lparr>isPR := True, entityNumber := 42\<rparr>) \<and>
   shell sample_world (GitFetch (max 5 20) ''feature-x'') \<and>
   shell sample_world (GitCheckout ''feature-x'') \<and>
   setupBranch sample_world sample_octokits (sample_pr OPEN)
       (sample_context\<lparr>isPR := True, entityNumber := 42\<rparr>) =
     ([Shell (GitFetch 20 ''feature-x''), Shell (GitCheckout ''feature-x'')],
      Inr \<lparr>baseBranch = ''main'', claudeBranch = None, currentBranch = ''feature-x''\<rparr>)"
proof -
  let ?c = "sample_context\<lparr>isPR := True, entityNumber := 42\<rparr>"
  let ?pr = "\<lparr>GitHubPullRequest.title = ''Add x'', GitHubPullRequest.body = None,
         state = OPEN, headRefName = ''feature-x'', baseRefName = ''main'',
         commits_totalCount = 5\<rparr>"
  have h1: "isPR ?c" by (simp add: sample_defs)
  have h2: "contextData (sample_pr OPEN) = PullRequestData ?pr" by (simp add: sample_defs)
  have h3: "state ?pr = OPEN" by simp
  have g: "shell sample_world (GitFetch (max (commits_totalCount ?pr) 20) (headRefName ?pr)) \<and>
      shell sample_world (GitCheckout (headRefName ?pr))"
    by (simp add: sample_defs)
  from setupBranch_open_pull_request [OF h1 h2 h3, of sample_world sample_octokits] g
  have "setupBranch sample_world sample_octokits (sample_pr OPEN) ?c =
     ([Shell (GitFetch (max (commits_totalCount ?pr) 20) (headRefName ?pr)),
       Shell (GitCheckout (headRefName ?pr))],
      Inr \<lparr>baseBranch = baseRefName ?pr, claudeBranch = None,
           currentBranch = headRefName ?pr\<rparr>)"
    by blast
  then have run: "setupBranch sample_world sample_octokits (sample_pr OPEN) ?c =
     ([Shell (GitFetch 20 ''feature-x''), Shell (GitCheckout ''feature-x'')],
      Inr \<lparr>baseBranch = ''main'', claudeBranch = None, currentBranch = ''feature-x''\<rparr>)"
    by simp
  have g': "shell sample_world (GitFetch (max 5 20) ''feature-x'') \<and>
      shell sample_world (GitCheckout ''feature-x'')"
    by (simp add: sample_defs)
  from h1 g' run show ?thesis by simp
qed

text \<open>
  C2. The source branch follows a fixed order. A configured (non-empty) base branch is
  the result as it is, whatever the prompt and whatever the hosting API answers. With
  neither a base branch nor a prompt, the result is the answer of the lookup of the
  repository's default branch. On the creation path every record that \<open>setupBranch\<close>
  returns has this source branch as its base branch.
\<close>

theorem sourceBranch_precedence:
  "(Inputs.baseBranch (inputs context) = Some b \<and> b \<noteq> []
      \<longrightarrow> sourceBranch octokits context = Inr b) \<and>
   (\<not> truthy (Inputs.baseBranch (inputs context)) \<and>
    \<not> truthy (baseBranchPrompt (inputs context))
      \<longrightarrow> sourceBranch octokits context = repos_get octokits 0) \<and>
   ((\<not> isPR context \<or>
     (\<exists>prData. contextData githubData = PullRequestData prData \<and>
        (state prData = CLOSED \<or> state prData = MERGED))) \<and>
    setupBranch w octokits githubData context = (trace, Inr r)
      \<longrightarrow> sourceBranch octokits context = Inr (baseBranch r))"
proof (intro conjI impI)
  assume "Inputs.baseBranch (inputs context) = Some b \<and> b \<noteq> []"
  then show "sourceBranch octokits context = Inr b"
    by (auto simp: sourceBranch_def split: list.splits)
next
  assume "\<not> truthy (Inputs.baseBranch (inputs context)) \<and>
    \<not> truthy (baseBranchPrompt (inputs context))"
  then show "sourceBranch octokits context = repos_get octokits 0"
    by (cases "Inputs.baseBranch (inputs context)")
       (auto simp: sourceBranch_def split: list.splits)
next
  assume a: "(\<not> isPR context \<or>
     (\<exists>prData. contextData githubData = PullRequestData prData \<and>
        (state prData = CLOSED \<or> state prData = MERGED))) \<and>
    setupBranch w octokits githubData context = (trace, Inr r)"
  then have "createBranch w octokits context = (trace, Inr r)"
    using setupBranch_creation [of "context" githubData w octokits] by simp
  then show "sourceBranch octokits context = Inr (baseBranch r)"
    by (auto simp: createBranch_def split: sum.splits if_splits)
qed

theorem sourceBranch_precedence_witness:
  "Inputs.baseBranch (inputs (sample_context\<lparr>inputs := sample_inputs
      \<lparr>Inputs.baseBranch := Some ''develop'',
       baseBranchPrompt := Some ''pick the release branch''\<rparr>\<rparr>)) = Some ''develop'' \<and>
   sourceBranch (sample_octokits\<lparr>repos_get := (\<lambda>k. Inl (RequestError ''Bad credentials''))\<rparr>)
     (sample_context\<lparr>inputs := sample_inputs\<lparr>Inputs.baseBranch := Some ''develop'',
        baseBranchPrompt := Some ''pick the release branch''\<rparr>\<rparr>) = Inr ''develop'' \<and>
   \<not> truthy (Inputs.baseBranch (inputs sample_context)) \<and>
   \<not> truthy (baseBranchPrompt (inputs sample_context)) \<and>
   sourceBranch sample_octokits sample_context = Inr ''main'' \<and>
   setupBranch sample_world sample_octokits (sample_pr MERGED)
     (sample_context\<lparr>isPR := True\<rparr>) =
     ([Shell (GitCheckoutB ''claude-pr-101''),
       SetOutput ''CLAUDE_BRANCH'' ''claude-pr-101'', SetOutput ''BASE_BRANCH'' ''main''],
      Inr \<lparr>baseBranch = ''main'', claudeBranch = Some ''claude-pr-101'',
           currentBranch = ''claude-pr-101''\<rparr>) \<and>
   sourceBranch sample_octokits (sample_context\<lparr>isPR := True\<rparr>) = Inr ''main''"
proof -
  let ?explicit = "sample_context\<lparr>inputs := sample_inputs
      \<lparr>Inputs.baseBranch := Some ''develop'',
       baseBranchPrompt := Some ''pick the release branch''\<rparr>\<rparr>"
  let ?down = "sample_octokits\<lparr>repos_get := (\<lambda>k. Inl (RequestError ''Bad credentials''))\<rparr>"
  let ?merged = "sample_context\<lparr>isPR := True\<rparr>"
  let ?r = "\<lparr>baseBranch = ''main'', claudeBranch = Some ''claude-pr-101'',
           currentBranch = ''claude-pr-101''\<rparr>"
  have h1: "Inputs.baseBranch (inputs ?explicit) = Some ''develop'' \<and> ''develop'' \<noteq> []"
    by (simp add: sample_defs)
  have c1: "sourceBranch ?down ?explicit = Inr ''develop''"
    using sourceBranch_precedence [of ?explicit "''develop''" ?down] h1 by blast
  have h2: "\<not> truthy (Inputs.baseBranch (inputs sample_context)) \<and>
      \<not> truthy (baseBranchPrompt (inputs sample_context))"
    by (simp add: sample_defs)
  have c2: "sourceBranch sample_octokits sample_context = repos_get sample_octokits 0"
    using sourceBranch_precedence [of sample_context _ sample_octokits] h2 by blast
  have d: "repos_get sample_octokits 0 = Inr ''main''"
    by (simp add: sample_defs)
  have h3: "\<exists>prData. contextData (sample_pr MERGED) = PullRequestData prData \<and>
        (state prData = CLOSED \<or> state prData = MERGED)"
    by (simp add: sample_defs)
  have run: "setupBranch sample_world sample_octokits (sample_pr MERGED) ?merged =
     ([Shell (GitCheckoutB ''claude-pr-101''),
       SetOutput ''CLAUDE_BRANCH'' ''claude-pr-101'', SetOutput ''BASE_BRANCH'' ''main''], Inr ?r)"
    by code_simp
  have c3: "sourceBranch sample_octokits ?merged = Inr (baseBranch ?r)"
    using sourceBranch_precedence
      [of ?merged _ sample_octokits "sample_pr MERGED" sample_world _ ?r] h3 run
    by blast
  from h1 c1 h2 c2 d run c3 show ?thesis by simp
qed

text \<open>
  C4. A closed or merged pull request takes the path of an issue: \<open>setupBranch\<close> is the
  creation of a branch, as it is for an issue; it runs no fetch and no checkout of an
  existing ref; the name is built with \<open>pr-\<close>; and when the source branch is found
  (and, without commit signing, \<open>git checkout -b\<close> succeeds) it returns the source
  branch as base branch and the new name as the new branch, created locally unless
  commit signing defers it. The sample run is the closed pull request 7 with prefix
  \<open>claude-\<close>, default branch \<open>main\<close>, no timestamp: branch \<open>claude-pr-7\<close>.
\<close>

theorem setupBranch_closed_pull_request:
  assumes "isPR context"
    and "contextData githubData = PullRequestData prData"
    and "state prData = CLOSED \<or> state prData = MERGED"
  shows "setupBranch w octokits githubData context = createBranch w octokits context \<and>
     setupBranch w octokits githubData' (context\<lparr>isPR := False\<rparr>) =
       createBranch w octokits (context\<lparr>isPR := False\<rparr>) \<and>
     (\<forall>d ref. Shell (GitFetch d ref) \<notin> set (fst (setupBranch w octokits githubData context)) \<and>
        Shell (GitCheckout ref) \<notin> set (fst (setupBranch w octokits githubData context))) \<and>
     branchName w context =
       branchPrefix (inputs context) @ ''pr-'' @ decimal (entityNumber context)
         @ (if useTimestampSuffix (inputs context) then ''-'' @ timestamp (now w) else []) \<and>
     (sourceBranch octokits context = Inr src \<and>
      git_getRef octokits (''heads/'' @ src) = Inr sha \<and>
      (useCommitSigning (inputs context) \<or> shell w (GitCheckoutB (newBranch w context)))
        \<longrightarrow> (\<exists>trace current.
               setupBranch w octokits githubData context =
                 (trace, Inr \<lparr>baseBranch = src, claudeBranch = Some (newBranch w context),
                             currentBranch = current\<rparr>) \<and>
               (useCommitSigning (inputs context) \<or>
                Shell (GitCheckoutB (newBranch w context)) \<in> set trace)))"
proof -
  have eq: "setupBranch w octokits githubData context = createBranch w octokits context"
    using assms by (simp add: setupBranch_def)
  have issue: "setupBranch w octokits githubData' (context\<lparr>isPR := False\<rparr>) =
       createBranch w octokits (context\<lparr>isPR := False\<rparr>)"
    by (simp add: setupBranch_def)
  have quiet: "Shell (GitFetch d ref) \<notin> set (fst (createBranch w octokits context)) \<and>
        Shell (GitCheckout ref) \<notin> set (fst (createBranch w octokits context))" for d ref
    by (simp add: createBranch_def split: sum.splits)
  have name: "branchName w context =
       branchPrefix (inputs context) @ ''pr-'' @ decimal (entityNumber context)
         @ (if useTimestampSuffix (inputs context) then ''-'' @ timestamp (now w) else [])"
    using assms(1) by (simp add: branchName_def entityType_def)
  have made: "\<exists>trace current.
               createBranch w octokits context =
                 (trace, Inr \<lparr>baseBranch = src, claudeBranch = Some (newBranch w context),
                             currentBranch = current\<rparr>) \<and>
               (useCommitSigning (inputs context) \<or>
                Shell (GitCheckoutB (newBranch w context)) \<in> set trace)"
    if "sourceBranch octokits context = Inr src \<and>
      git_getRef octokits (''heads/'' @ src) = Inr sha \<and>
      (useCommitSigning (inputs context) \<or> shell w (GitCheckoutB (newBranch w context)))"
    using that createBranch_found [of octokits "context" src sha w] by auto
  from eq issue quiet name made show ?thesis by simp
qed

theorem setupBranch_closed_pull_request_witness:
  "isPR (sample_context\<lparr>isPR := True, entityNumber := 7\<rparr>) \<and>
   state \<lparr>GitHubPullRequest.title = ''Add x'', GitHubPullRequest.body = None, state = CLOSED,
         headRefName = ''feature-x'', baseRefName = ''main'', commits_totalCount = 5\<rparr> = CLOSED \<and>
   sourceBranch sample_octokits (sample_context\<lparr>isPR := True, entityNumber := 7\<rparr>) =
     Inr ''main'' \<and>
   git_getRef sample_octokits (''heads/'' @ ''main'') = Inr ''0123abc'' \<and>
   newBranch sample_world (sample_context\<lparr>isPR := True, entityNumber := 7\<rparr>) =
     ''claude-pr-7'' \<and>
   shell sample_world (GitCheckoutB ''claude-pr-7'') \<and>
   (\<exists>trace current.
      setupBranch sample_world sample_octokits (sample_pr CLOSED)
          (sample_context\<lparr>isPR := True, entityNumber := 7\<rparr>) =
        (trace, Inr \<lparr>baseBranch = ''main'', claudeBranch = Some ''claude-pr-7'',
                    currentBranch = current\<rparr>)) \<and>
   setupBranch sample_world sample_octokits (sample_pr CLOSED)
       (sample_context\<lparr>isPR := True, entityNumber := 7\<rparr>) =
     ([Shell (GitCheckoutB ''claude-pr-7''),
       SetOutput ''CLAUDE_BRANCH'' ''claude-pr-7'', SetOutput ''BASE_BRANCH'' ''main''],
      Inr \<lparr>baseBranch = ''main'', claudeBranch = Some ''claude-pr-7'',
           currentBranch = ''claude-pr-7''\<rparr>)"
proof -
  let ?c = "sample_context\<lparr>isPR := True, entityNumber := 7\<rparr>"
  let ?pr = "\<lparr>GitHubPullRequest.title = ''Add x'', GitHubPullRequest.body = None,
         state = CLOSED, headRefName = ''feature-x'', baseRefName = ''main'',
         commits_totalCount = 5\<rparr>"
  have h1: "isPR ?c" by (simp add: sample_defs)
  have h2: "contextData (sample_pr CLOSED) = PullRequestData ?pr" by (simp add: sample_defs)
  have h3: "state ?pr = CLOSED \<or> state ?pr = MERGED" by simp
  have s: "sourceBranch sample_octokits ?c = Inr ''main''" by code_simp
  have r: "git_getRef sample_octokits (''heads/'' @ ''main'') = Inr ''0123abc''"
    by (simp add: sample_defs)
  have n: "newBranch sample_world ?c = ''claude-pr-7''" by code_simp
  have g: "shell sample_world (GitCheckoutB ''claude-pr-7'')" by (simp add: sample_defs)
  have run: "createBranch sample_world sample_octokits ?c =
     ([Shell (GitCheckoutB ''claude-pr-7''),
       SetOutput ''CLAUDE_BRANCH'' ''claude-pr-7'', SetOutput ''BASE_BRANCH'' ''main''],
      Inr \<lparr>baseBranch = ''main'', claudeBranch = Some ''claude-pr-7'',
           currentBranch = ''claude-pr-7''\<rparr>)"
    by code_simp
  note closed = setupBranch_closed_pull_request
    [OF h1 h2 h3, of sample_world sample_octokits _ "''main''" "''0123abc''"]
  from closed have eq: "setupBranch sample_world sample_octokits (sample_pr CLOSED) ?c =
      createBranch sample_world sample_octokits ?c"
    by blast
  from closed s r g have "\<exists>trace current.
      setupBranch sample_world sample_octokits (sample_pr CLOSED) ?c =
        (trace, Inr \<lparr>baseBranch = ''main'',
                    claudeBranch = Some (newBranch sample_world ?c),
                    currentBranch = current\<rparr>)"
    unfolding n by blast
  then have made: "\<exists>trace current.
      setupBranch sample_world sample_octokits (sample_pr CLOSED) ?c =
        (trace, Inr \<lparr>baseBranch = ''main'', claudeBranch = Some ''claude-pr-7'',
                    currentBranch = current\<rparr>)"
    unfolding n .
  from h1 s r n g made eq run show ?thesis by simp
qed

text \<open>
  C6. On the creation path, when the source branch is resolved and its ref is not found
  on the remote, \<open>setupBranch\<close> ends the process with exit code 1, with no command run
  and no output set. Every run on this path that gives no record has set no output,
  and every record it returns is whole: the source branch as base branch, the new name
  as the new branch, a current branch that is one of the two, and both outputs set.
\<close>

theorem setupBranch_ref_not_found:
  assumes "\<not> isPR context \<or>
     (\<exists>prData. contextData githubData = PullRequestData prData \<and>
        (state prData = CLOSED \<or> state prData = MERGED))"
  shows "(sourceBranch octokits context = Inr src \<and>
      git_getRef octokits (''heads/'' @ src) = Inl e
        \<longrightarrow> setupBranch w octokits githubData context = ([], Inl (Exit 1))) \<and>
     (\<forall>trace f. setupBranch w octokits githubData context = (trace, Inl f)
        \<longrightarrow> (\<forall>name v. SetOutput name v \<notin> set trace)) \<and>
     (\<forall>trace r. setupBranch w octokits githubData context = (trace, Inr r)
        \<longrightarrow> sourceBranch octokits context = Inr (baseBranch r) \<and>
            claudeBranch r = Some (newBranch w context) \<and>
            (currentBranch r = baseBranch r \<or> currentBranch r = newBranch w context) \<and>
            SetOutput ''CLAUDE_BRANCH'' (newBranch w context) \<in> set trace \<and>
            SetOutput ''BASE_BRANCH'' (baseBranch r) \<in> set trace)"
proof -
  have eq: "setupBranch w octokits githubData context = createBranch w octokits context"
    using assms by (rule setupBranch_creation)
  have stop: "createBranch w octokits context = ([], Inl (Exit 1))"
    if "sourceBranch octokits context = Inr src \<and> git_getRef octokits (''heads/'' @ src) = Inl e"
    using that by (simp add: createBranch_def)
  have silent: "SetOutput name v \<notin> set trace"
    if "createBranch w octokits context = (trace, Inl f)" for trace f name v
    using that by (auto simp: createBranch_def split: sum.splits if_splits)
  have whole: "sourceBranch octokits context = Inr (baseBranch r) \<and>
            claudeBranch r = Some (newBranch w context) \<and>
            (currentBranch r = baseBranch r \<or> currentBranch r = newBranch w context) \<and>
            SetOutput ''CLAUDE_BRANCH'' (newBranch w context) \<in> set trace \<and>
            SetOutput ''BASE_BRANCH'' (baseBranch r) \<in> set trace"
    if "createBranch w octokits context = (trace, Inr r)" for trace r
    using that by (auto simp: createBranch_def split: sum.splits if_splits)
  from stop silent whole show ?thesis unfolding eq by blast
qed

theorem setupBranch_ref_not_found_witness:
  "\<not> isPR sample_context \<and>
   sourceBranch (sample_octokits\<lparr>git_getRef := (\<lambda>ref. Inl (RequestError ''Not Found''))\<rparr>)
       sample_context = Inr ''main'' \<and>
   git_getRef (sample_octokits\<lparr>git_getRef := (\<lambda>ref. Inl (RequestError ''Not Found''))\<rparr>)
       (''heads/'' @ ''main'') = Inl (RequestError ''Not Found'') \<and>
   setupBranch sample_world
       (sample_octokits\<lparr>git_getRef := (\<lambda>ref. Inl (RequestError ''Not Found''))\<rparr>)
       sample_issue sample_context = ([], Inl (Exit 1)) \<and>
   setupBranch sample_world sample_octokits sample_issue sample_context =
     ([Shell (GitCheckoutB ''claude-issue-101''),
       SetOutput ''CLAUDE_BRANCH'' ''claude-issue-101'', SetOutput ''BASE_BRANCH'' ''main''],
      Inr \<lparr>baseBranch = ''main'', claudeBranch = Some ''claude-issue-101'',
           currentBranch = ''claude-issue-101''\<rparr>) \<and>
   newBranch sample_world sample_context = ''claude-issue-101''"
proof -
  let ?o = "sample_octokits\<lparr>git_getRef := (\<lambda>ref. Inl (RequestError ''Not Found''))\<rparr>"
  let ?r = "\<lparr>baseBranch = ''main'', claudeBranch = Some ''claude-issue-101'',
           currentBranch = ''claude-issue-101''\<rparr>"
  have h1: "\<not> isPR sample_context" by (simp add: sample_defs)
  have h2: "sourceBranch ?o sample_context = Inr ''main''"
    by (simp add: sample_defs sourceBranch_def)
  have h3: "git_getRef ?o (''heads/'' @ ''main'') = Inl (RequestError ''Not Found'')"
    by simp
  from h1 have path: "\<not> isPR sample_context \<or>
     (\<exists>prData. contextData sample_issue = PullRequestData prData \<and>
        (state prData = CLOSED \<or> state prData = MERGED))" by simp
  from setupBranch_ref_not_found
    [OF path, of ?o "''main''" "RequestError ''Not Found''" sample_world] h2 h3
  have stop: "setupBranch sample_world ?o sample_issue sample_context = ([], Inl (Exit 1))"
    by blast
  have run: "setupBranch sample_world sample_octokits sample_issue sample_context =
     ([Shell (GitCheckoutB ''claude-issue-101''),
       SetOutput ''CLAUDE_BRANCH'' ''claude-issue-101'', SetOutput ''BASE_BRANCH'' ''main''],
      Inr ?r)"
    by code_simp
  from setupBranch_ref_not_found [OF path, of sample_octokits _ _ sample_world] run
  have "claudeBranch ?r = Some (newBranch sample_world sample_context)"
    by blast
  then have name: "newBranch sample_world sample_context = ''claude-issue-101''"
    by simp
  from h1 h2 h3 stop run name show ?thesis by simp
qed

text \<open>
  C8. On the creation path with the source ref found: with commit signing the run
  consists of the two outputs only (no shell command, so the local checkout is as it
  was) and the record has the source branch as current branch and the generated name
  as the new branch; without commit signing, and with \<open>git checkout -b\<close> succeeding,
  the new branch is created and checked out and is the current branch.
\<close>

theorem setupBranch_commit_signing:
  assumes "\<not> isPR context \<or>
     (\<exists>prData. contextData githubData = PullRequestData prData \<and>
        (state prData = CLOSED \<or> state prData = MERGED))"
    and "sourceBranch octokits context = Inr src"
    and "git_getRef octokits (''heads/'' @ src) = Inr sha"
  shows "(useCommitSigning (inputs context)
        \<longrightarrow> setupBranch w octokits githubData context =
             ([SetOutput ''CLAUDE_BRANCH'' (newBranch w context), SetOutput ''BASE_BRANCH'' src],
              Inr \<lparr>baseBranch = src, claudeBranch = Some (newBranch w context),
                   currentBranch = src\<rparr>)) \<and>
     (\<not> useCommitSigning (inputs context) \<and> shell w (GitCheckoutB (newBranch w context))
        \<longrightarrow> setupBranch w octokits githubData context =
             ([Shell (GitCheckoutB (newBranch w context)),
               SetOutput ''CLAUDE_BRANCH'' (newBranch w context), SetOutput ''BASE_BRANCH'' src],
              Inr \<lparr>baseBranch = src, claudeBranch = Some (newBranch w context),
                   currentBranch = newBranch w context\<rparr>))"
  using setupBranch_creation [OF assms(1), of w octokits]
    createBranch_found [OF assms(2) assms(3), of w]
  by simp

theorem setupBranch_commit_signing_witness:
  "useCommitSigning (inputs (sample_context\<lparr>inputs := sample_inputs\<lparr>useCommitSigning := True\<rparr>\<rparr>)) \<and>
   setupBranch sample_world sample_octokits sample_issue
       (sample_context\<lparr>inputs := sample_inputs\<lparr>useCommitSigning := True\<rparr>\<rparr>) =
     ([SetOutput ''CLAUDE_BRANCH'' ''claude-issue-101'', SetOutput ''BASE_BRANCH'' ''main''],
      Inr \<lparr>baseBranch = ''main'', claudeBranch = Some ''claude-issue-101'',
           currentBranch = ''main''\<rparr>) \<and>
   \<not> useCommitSigning (inputs sample_context) \<and>
   shell sample_world (GitCheckoutB ''claude-issue-101'') \<and>
   setupBranch sample_world sample_octokits sample_issue sample_context =
     ([Shell (GitCheckoutB ''claude-issue-101''),
       SetOutput ''CLAUDE_BRANCH'' ''claude-issue-101'', SetOutput ''BASE_BRANCH'' ''main''],
      Inr \<lparr>baseBranch = ''main'', claudeBranch = Some ''claude-issue-101'',
           currentBranch = ''claude-issue-101''\<rparr>)"
proof -
  let ?s = "sample_context\<lparr>inputs := sample_inputs\<lparr>useCommitSigning := True\<rparr>\<rparr>"
  have issue: "\<not> isPR c \<or>
     (\<exists>prData. contextData sample_issue = PullRequestData prData \<and>
        (state prData = CLOSED \<or> state prData = MERGED))"
    if "\<not> isPR c" for c using that by simp
  have p1: "\<not> isPR ?s" and p2: "\<not> isPR sample_context" by (simp_all add: sample_defs)
  have s1: "sourceBranch sample_octokits ?s = Inr ''main''"
    and s2: "sourceBranch sample_octokits sample_context = Inr ''main''"
    by (simp_all add: sample_defs sourceBranch_def)
  have r: "git_getRef sample_octokits (''heads/'' @ ''main'') = Inr ''0123abc''"
    by (simp add: sample_defs)
  have n1: "newBranch sample_world ?s = ''claude-issue-101''"
    and n2: "newBranch sample_world sample_context = ''claude-issue-101''"
    by code_simp+
  have m1: "useCommitSigning (inputs ?s)"
    and m2: "\<not> useCommitSigning (inputs sample_context)"
    and m3: "shell sample_world (GitCheckoutB ''claude-issue-101'')"
    by (simp_all add: sample_defs)
  from setupBranch_commit_signing [OF issue [OF p1] s1 r, of sample_world] m1 n1
  have a: "setupBranch sample_world sample_octokits sample_issue ?s =
     ([SetOutput ''CLAUDE_BRANCH'' ''claude-issue-101'', SetOutput ''BASE_BRANCH'' ''main''],
      Inr \<lparr>baseBranch = ''main'', claudeBranch = Some ''claude-issue-101'',
           currentBranch = ''main''\<rparr>)"
    by simp
  from setupBranch_commit_signing [OF issue [OF p2] s2 r, of sample_world] m2 m3 n2
  have b: "setupBranch sample_world sample_octokits sample_issue sample_context =
     ([Shell (GitCheckoutB ''claude-issue-101''),
       SetOutput ''CLAUDE_BRANCH'' ''claude-issue-101'', SetOutput ''BASE_BRANCH'' ''main''],
      Inr \<lparr>baseBranch = ''main'', claudeBranch = Some ''claude-issue-101'',
           currentBranch = ''claude-issue-101''\<rparr>)"
    by simp
  from a b m1 m2 m3 show ?thesis by simp
qed

text \<open>
  C7. The name is lowercased and cut to 50 characters, and nothing else is done to it
  (\<open>sanitize_idempotent\<close>, \<open>sanitize_lowercase\<close> and \<open>sanitize_length\<close> above are the
  parts that hold). An underscore of the branch prefix stays in the name: the issue 101
  with prefix \<open>claude_\<close> gets the branch \<open>claude_issue-101\<close>.
\<close>

theorem newBranch_keeps_underscore:
  "setupBranch sample_world sample_octokits sample_issue
       (sample_context\<lparr>inputs := sample_inputs\<lparr>branchPrefix := ''claude_''\<rparr>\<rparr>) =
     ([Shell (GitCheckoutB ''claude_issue-101''),
       SetOutput ''CLAUDE_BRANCH'' ''claude_issue-101'', SetOutput ''BASE_BRANCH'' ''main''],
      Inr \<lparr>baseBranch = ''main'', claudeBranch = Some ''claude_issue-101'',
           currentBranch = ''claude_issue-101''\<rparr>) \<and>
   sanitize ''claude_issue-101'' = ''claude_issue-101'' \<and>
   CHR ''_'' \<in> set (sanitize ''claude_issue-101'')"
  by code_simp

section \<open>Facts about the branch advisor\<close>

lemma determineBranchWithAI_try_cases:
  "determineBranchWithAI_try w octokits githubData context prompt = Inr b \<Longrightarrow>
     (\<exists>branches. repos_listBranches octokits = Inr branches \<and> b \<in> set branches) \<or>
     repos_get octokits 0 = Inr b"
  by (auto simp: determineBranchWithAI_try_def getDefaultBranch_def Let_def
           split: if_splits sum.splits)


text \<open>
  C3, as the code has it. The branch that \<open>determineBranchWithAI\<close> returns is one of
  the branches of the fetched list or the repository's default branch, as one of the
  two lookups gave it; the default branch need not be in the fetched list. A suggestion
  that is not in the fetched list is replaced by the default branch. The source branch
  of \<open>setupBranch\<close> is the configured base branch or the default branch; it does not
  fetch the list.
\<close>

theorem determineBranchWithAI_membership:
  "(determineBranchWithAI w octokits githubData context prompt = Inr b
      \<longrightarrow> (\<exists>branches. repos_listBranches octokits = Inr branches \<and> b \<in> set branches) \<or>
          repos_get octokits 0 = Inr b \<or> repos_get octokits 1 = Inr b) \<and>
   (repos_get octokits 0 = Inr d \<and> repos_listBranches octokits = Inr branches \<and>
    messages_create w (advisorRequest prompt context githubData d branches) =
      Inr (TextBlock suggestion # rest) \<and>
    trim suggestion \<notin> set branches
      \<longrightarrow> determineBranchWithAI w octokits githubData context prompt = Inr d) \<and>
   (sourceBranch octokits context = Inr b
      \<longrightarrow> Inputs.baseBranch (inputs context) = Some b \<or> repos_get octokits 0 = Inr b)"
proof (intro conjI impI)
  assume "determineBranchWithAI w octokits githubData context prompt = Inr b"
  then show "(\<exists>branches. repos_listBranches octokits = Inr branches \<and> b \<in> set branches) \<or>
          repos_get octokits 0 = Inr b \<or> repos_get octokits 1 = Inr b"
    using determineBranchWithAI_try_cases [of w octokits githubData "context" prompt b]
    by (auto simp: determineBranchWithAI_def getDefaultBranch_def split: sum.splits)
next
  assume "repos_get octokits 0 = Inr d \<and> repos_listBranches octokits = Inr branches \<and>
    messages_create w (advisorRequest prompt context githubData d branches) =
      Inr (TextBlock suggestion # rest) \<and>
    trim suggestion \<notin> set branches"
  then show "determineBranchWithAI w octokits githubData context prompt = Inr d"
    by (simp add: determineBranchWithAI_def determineBranchWithAI_try_def
          getDefaultBranch_def)
next
  assume "sourceBranch octokits context = Inr b"
  then show "Inputs.baseBranch (inputs context) = Some b \<or> repos_get octokits 0 = Inr b"
    by (auto simp: sourceBranch_def split: option.splits list.splits if_splits)
qed

theorem determineBranchWithAI_membership_witness:
  "repos_get sample_octokits 0 = Inr ''main'' \<and>
   repos_listBranches sample_octokits = Inr [''dev''] \<and>
   messages_create (sample_world\<lparr>ANTHROPIC_API_KEY := Some ''key''\<rparr>)
     (advisorRequest ''Use the hotfix branch'' (sample_context\<lparr>entityNumber := 9\<rparr>)
        sample_issue ''main'' [''dev'']) = Inr [TextBlock ''hotfix-9''] \<and>
   trim ''hotfix-9'' \<notin> set [''dev''] \<and>
   determineBranchWithAI (sample_world\<lparr>ANTHROPIC_API_KEY := Some ''key''\<rparr>) sample_octokits
     sample_issue (sample_context\<lparr>entityNumber := 9\<rparr>) ''Use the hotfix branch'' = Inr ''main'' \<and>
   sourceBranch sample_octokits (sample_context\<lparr>entityNumber := 9\<rparr>) = Inr ''main'' \<and>
   repos_get sample_octokits 0 = Inr ''main''"
proof -
  let ?w = "sample_world\<lparr>ANTHROPIC_API_KEY := Some ''key''\<rparr>"
  let ?c = "sample_context\<lparr>entityNumber := 9\<rparr>"
  have h1: "repos_get sample_octokits 0 = Inr ''main''"
    and h2: "repos_listBranches sample_octokits = Inr [''dev'']"
    and h3: "messages_create ?w
       (advisorRequest ''Use the hotfix branch'' ?c sample_issue ''main'' [''dev'']) =
       Inr (TextBlock ''hotfix-9'' # [])"
    by (simp_all add: sample_defs)
  have h4: "trim ''hotfix-9'' \<notin> set [''dev'']" by code_simp
  have h5: "sourceBranch sample_octokits ?c = Inr ''main''" by code_simp
  from determineBranchWithAI_membership
    [of ?w sample_octokits sample_issue ?c "''Use the hotfix branch''" "''main''" "''main''"
        "[''dev'']" "''hotfix-9''" "[]"]
    h1 h2 h3 h4
  have a: "determineBranchWithAI ?w sample_octokits sample_issue ?c
     ''Use the hotfix branch'' = Inr ''main''"
    by blast
  from determineBranchWithAI_membership
    [of ?w sample_octokits sample_issue ?c "''Use the hotfix branch''" "''main''"] h5
  have b: "Inputs.baseBranch (inputs ?c) = Some ''main'' \<or>
      repos_get sample_octokits 0 = Inr ''main''"
    by blast
  from h1 h2 h3 h4 h5 a b show ?thesis by simp
qed

text \<open>
  C3, as it is stated, fails: with the fetched list \<open>[dev]\<close>, the default branch
  \<open>main\<close>, no configured base branch and the suggestion \<open>hotfix-9\<close>, the result is
  \<open>main\<close>, which is neither in the fetched list nor a configured value.
\<close>

theorem determineBranchWithAI_default_not_listed:
  "repos_listBranches sample_octokits = Inr [''dev''] \<and>
   Inputs.baseBranch (inputs (sample_context\<lparr>entityNumber := 9\<rparr>)) = None \<and>
   determineBranchWithAI (sample_world\<lparr>ANTHROPIC_API_KEY := Some ''key''\<rparr>) sample_octokits
     sample_issue (sample_context\<lparr>entityNumber := 9\<rparr>) ''Use the hotfix branch'' = Inr ''main'' \<and>
   ''main'' \<notin> set [''dev'']"
  by code_simp




section \<open>Facts about the event descriptor\<close>





section \<open>Facts about the tool lists\<close>

text \<open>
  C10, as the code has it. A built-in entry that the caller allowed is not among the
  entries of the result, unless the caller's own list of disallowed tools names it.
  With no tools of the caller's own and every built-in entry allowed, the result is
  the empty string.
\<close>

theorem buildDisallowedToolsString_omits_allowed:
  "(tool \<in> set DISALLOWED_TOOLS \<and> allowed = Some al \<and> tool \<in> set al \<and>
    tool \<notin> set (concat (map split_comma
                (case custom of None \<Rightarrow> [] | Some cs \<Rightarrow> cs)))
      \<longrightarrow> tool \<notin> set (split_comma
                (buildDisallowedToolsString custom allowed))) \<and>
   (set DISALLOWED_TOOLS \<subseteq> set al \<and>
    (custom = None \<or> custom = Some [])
      \<longrightarrow> buildDisallowedToolsString custom (Some al) = [])"
  by (cases custom)
     (auto simp: buildDisallowedToolsString_def Let_def DISALLOWED_TOOLS_def
        split_comma_append split_comma_join)

theorem buildDisallowedToolsString_omits_allowed_witness:
  "''WebSearch'' \<in> set DISALLOWED_TOOLS \<and> ''WebSearch'' \<in> set [''WebSearch'', ''Bash''] \<and>
   ''WebSearch'' \<notin> set (concat (map split_comma [''Task''])) \<and>
   buildDisallowedToolsString (Some [''Task'']) (Some [''WebSearch'', ''Bash'']) =
     ''WebFetch,Task'' \<and>
   ''WebSearch'' \<notin> set (split_comma
      (buildDisallowedToolsString (Some [''Task'']) (Some [''WebSearch'', ''Bash'']))) \<and>
   set DISALLOWED_TOOLS \<subseteq> set [''WebFetch'', ''WebSearch''] \<and>
   buildDisallowedToolsString None (Some [''WebFetch'', ''WebSearch'']) = []"
proof -
  have h1: "''WebSearch'' \<in> set DISALLOWED_TOOLS \<and> ''WebSearch'' \<in> set [''WebSearch'', ''Bash'']"
    by code_simp
  have h2: "''WebSearch'' \<notin> set (concat (map split_comma
                (case Some [''Task''] of None \<Rightarrow> [] | Some cs \<Rightarrow> cs)))"
    by code_simp
  have h3: "set DISALLOWED_TOOLS \<subseteq> set [''WebFetch'', ''WebSearch'']"
    by code_simp
  have v: "buildDisallowedToolsString (Some [''Task'']) (Some [''WebSearch'', ''Bash'']) =
     ''WebFetch,Task''"
    by code_simp
  from buildDisallowedToolsString_omits_allowed
    [of "''WebSearch''" "Some [''WebSearch'', ''Bash'']" "[''WebSearch'', ''Bash'']"
        "Some [''Task'']"] h1 h2
  have a: "''WebSearch'' \<notin> set (split_comma
      (buildDisallowedToolsString (Some [''Task'']) (Some [''WebSearch'', ''Bash''])))"
    by blast
  from buildDisallowedToolsString_omits_allowed
    [of _ _ "[''WebFetch'', ''WebSearch'']" None] h3
  have b: "buildDisallowedToolsString None (Some [''WebFetch'', ''WebSearch'']) = []"
    by blast
  from h1 h2 h3 v a b show ?thesis by simp
qed

text \<open>
  C10, as it is stated, fails: \<open>WebSearch\<close> allowed and also listed by the caller as
  disallowed stays in the result.
\<close>

theorem buildDisallowedToolsString_custom_entry:
  "''WebSearch'' \<in> set DISALLOWED_TOOLS \<and> ''WebSearch'' \<in> set [''WebSearch''] \<and>
   buildDisallowedToolsString (Some [''WebSearch'']) (Some [''WebSearch'']) =
     ''WebFetch,WebSearch'' \<and>
   ''WebSearch'' \<in> set (split_comma
      (buildDisallowedToolsString (Some [''WebSearch'']) (Some [''WebSearch''])))"
  by code_simp

end
